theory Spec2Isabelle
  imports Complex_Main "HOL-Library.Char_ord" "HOL-Library.List_Lexorder"
begin

section \<open>The FCx benchmark runner (run_benchmarks.py)\<close>

text \<open>
  A shallow embedding of \<^verbatim>\<open>src/bchtsts/run_benchmarks.py\<close>: the result record with its
  derived accessors, the two compile steps, the timing of one binary, the measurement
  loops of \<^verbatim>\<open>run_benchmark\<close>, \<^verbatim>\<open>run_all\<close> and the category averages of
  \<^verbatim>\<open>print_summary\<close>.

  Conventions of the model:
  \<^item> a Python \<^verbatim>\<open>float\<close> is a \<^typ>\<open>real\<close>: comparisons, sentinels and the choice of a
    minimum are exact, and rounding of the binary64 format is not modelled;
  \<^item> a raised exception is a value \<open>Inl e\<close> of a sum type;
  \<^item> the operating system is a record \<open>world\<close>: what each spawned process does and
    which files exist are given by the environment, and every call of
    \<^verbatim>\<open>subprocess.run\<close> and of \<^verbatim>\<open>time.perf_counter_ns\<close> is appended to a trace;
  \<^item> text written to the console is not modelled.
\<close>

subsection \<open>Exceptions and the library functions that raise them\<close>

datatype py_error = KeyError | ValueError | StatisticsError | ZeroDivisionError | OSError

text \<open>The builtin \<^verbatim>\<open>min\<close>: ValueError on an empty sequence, otherwise the first smallest item.\<close>

fun py_min :: "real list \<Rightarrow> py_error + real" where
  "py_min [] = Inl ValueError"
| "py_min (x # xs) = Inr (fold (\<lambda>item best. if item < best then item else best) xs x)"

text \<open>\<^verbatim>\<open>statistics.mean\<close>: StatisticsError on an empty sequence.\<close>

definition py_mean :: "real list \<Rightarrow> py_error + real" where
  "py_mean xs = (if xs = [] then Inl StatisticsError else Inr (sum_list xs / real (length xs)))"

text \<open>The operator \<^verbatim>\<open>/\<close> on floats: ZeroDivisionError on a zero divisor.\<close>

definition py_div :: "real \<Rightarrow> real \<Rightarrow> py_error + real" where
  "py_div a b = (if b = 0 then Inl ZeroDivisionError else Inr (a / b))"

subsection \<open>BenchmarkResult\<close>

record BenchmarkResult =
  name :: string
  category :: string
  opt_level :: string
  fcx_times :: "real list"
  c_times :: "real list"
  fcx_compiled :: bool
  c_compiled :: bool

definition fcx_avg :: "BenchmarkResult \<Rightarrow> py_error + real" where
  "fcx_avg self = (if fcx_times self \<noteq> [] then py_mean (fcx_times self) else Inr 0)"

definition c_avg :: "BenchmarkResult \<Rightarrow> py_error + real" where
  "c_avg self = (if c_times self \<noteq> [] then py_mean (c_times self) else Inr 0)"

definition fcx_min :: "BenchmarkResult \<Rightarrow> py_error + real" where
  "fcx_min self = (if fcx_times self \<noteq> [] then py_min (fcx_times self) else Inr 0)"

definition c_min :: "BenchmarkResult \<Rightarrow> py_error + real" where
  "c_min self = (if c_times self \<noteq> [] then py_min (c_times self) else Inr 0)"

text \<open>
  \<^verbatim>\<open>if self.c_min > 0 and self.fcx_min > 0: return self.fcx_min / self.c_min\<close>, else 0.0.
  The conjunction is evaluated left to right and stops at the first false operand.
\<close>

definition ratio :: "BenchmarkResult \<Rightarrow> py_error + real" where
  "ratio self =
     (case c_min self of
        Inl e \<Rightarrow> Inl e
      | Inr cm \<Rightarrow>
          if cm > 0 then
            (case fcx_min self of
               Inl e \<Rightarrow> Inl e
             | Inr fm \<Rightarrow> if fm > 0 then py_div fm cm else Inr 0)
          else Inr 0)"

subsection \<open>The catalogue and the optimization levels\<close>

definition BENCHMARKS :: "(string \<times> string) list" where
  "BENCHMARKS =
    [(''01_fibonacci'', ''computational''),
     (''02_primes_sieve'', ''computational''),
     (''03_factorial'', ''computational''),
     (''04_gcd_lcm'', ''computational''),
     (''05_collatz'', ''computational''),
     (''06_ackermann'', ''computational''),
     (''07_loop_sum'', ''loop''),
     (''08_nested_loops'', ''loop''),
     (''09_loop_unroll'', ''loop''),
     (''10_countdown'', ''loop''),
     (''11_int_arithmetic'', ''arithmetic''),
     (''12_mixed_ops'', ''arithmetic''),
     (''13_division_heavy'', ''arithmetic''),
     (''14_multiply_chain'', ''arithmetic''),
     (''15_modulo_ops'', ''arithmetic''),
     (''16_bit_count'', ''bitwise''),
     (''17_bit_reverse'', ''bitwise''),
     (''18_bit_shift'', ''bitwise''),
     (''19_xor_swap'', ''bitwise''),
     (''20_power_of_two'', ''bitwise''),
     (''21_recursion_deep'', ''function''),
     (''22_tail_recursion'', ''function''),
     (''23_mutual_recursion'', ''function''),
     (''24_function_chain'', ''function''),
     (''25_array_sum'', ''memory''),
     (''26_array_copy'', ''memory''),
     (''27_matrix_mult'', ''memory''),
     (''28_bubble_sort'', ''memory''),
     (''29_binary_search'', ''memory''),
     (''30_memory_throughput'', ''memory'')]"

text \<open>One entry of \<^verbatim>\<open>OPT_CONFIGS\<close>: the values under the keys "fcx", "c" and "desc".\<close>

record opt_config =
  cfg_fcx :: string
  cfg_c :: string
  cfg_desc :: string

definition OPT_CONFIGS :: "(string \<times> opt_config) list" where
  "OPT_CONFIGS =
    [(''O0'', \<lparr>cfg_fcx = ''-O0'', cfg_c = ''-O0'', cfg_desc = ''No optimizations (debug)''\<rparr>),
     (''O1'', \<lparr>cfg_fcx = ''-O1'', cfg_c = ''-O1'', cfg_desc = ''Basic optimizations''\<rparr>),
     (''O2'', \<lparr>cfg_fcx = ''-O2'', cfg_c = ''-O2'', cfg_desc = ''Standard optimizations''\<rparr>),
     (''O3'', \<lparr>cfg_fcx = ''-O3'', cfg_c = ''-O3 -march=native -flto'',
              cfg_desc = ''Aggressive optimizations''\<rparr>),
     (''Os'', \<lparr>cfg_fcx = ''-Os'', cfg_c = ''-Os'', cfg_desc = ''Size optimizations''\<rparr>)]"

text \<open>\<^verbatim>\<open>OPT_CONFIGS[opt_level]\<close>: KeyError on an unknown level.\<close>

definition opt_config_of :: "string \<Rightarrow> py_error + opt_config" where
  "opt_config_of lvl = (case map_of OPT_CONFIGS lvl of None \<Rightarrow> Inl KeyError | Some cfg \<Rightarrow> Inr cfg)"

subsection \<open>Strings and paths\<close>

text \<open>
  \<^verbatim>\<open>str.lower\<close> and \<^verbatim>\<open>str.split\<close> (no argument), on ASCII: the level names and the flag
  strings of \<open>OPT_CONFIGS\<close> are ASCII.
\<close>

definition lower_char :: "char \<Rightarrow> char" where
  "lower_char ch =
     (if CHR ''A'' \<le> ch \<and> ch \<le> CHR ''Z'' then char_of (of_char ch + (32::nat)) else ch)"

definition lower :: "string \<Rightarrow> string" where
  "lower s = map lower_char s"

definition is_space :: "char \<Rightarrow> bool" where
  "is_space ch = (ch \<in> set [CHR '' '', CHR 0x09, CHR 0x0A, CHR 0x0B, CHR 0x0C, CHR 0x0D])"

fun split_from :: "string \<Rightarrow> string \<Rightarrow> string list" where
  "split_from [] word = (if word = [] then [] else [word])"
| "split_from (ch # rest) word =
     (if is_space ch then (if word = [] then split_from rest [] else word # split_from rest [])
      else split_from rest (word @ [ch]))"

definition split :: "string \<Rightarrow> string list" where
  "split s = split_from s []"

text \<open>
  A \<^verbatim>\<open>pathlib.Path\<close> is the list of its components below the root (\<^verbatim>\<open>script_dir\<close> is
  resolved, hence absolute); \<^verbatim>\<open>p / s\<close> appends the component \<open>s\<close>, \<^verbatim>\<open>p.parent\<close> drops
  the last one and \<^verbatim>\<open>str(p)\<close> joins them.
\<close>

type_synonym path = "string list"

definition str_path :: "path \<Rightarrow> string" where
  "str_path p = (if p = [] then ''/'' else concat (map (\<lambda>s. CHR ''/'' # s) p))"

definition parent :: "path \<Rightarrow> path" where
  "parent p = butlast p"

subsection \<open>The operating system\<close>

text \<open>
  What a spawned process does: it exits with a return code after some nanoseconds, its
  executable is not found, or spawning fails with another \<^verbatim>\<open>OSError\<close> (permission denied,
  exec format error).
\<close>

datatype proc_behaviour = Exits int nat | NotFound | SpawnFails

text \<open>What \<^verbatim>\<open>subprocess.run(cmd, capture_output=True, timeout=t)\<close> gives its caller.\<close>

datatype run_result = CompletedProcess int | TimeoutExpired | FileNotFoundError | OtherOSError

datatype event = Spawn "string list" | ClockRead

text \<open>
  \<open>proc w k cmd\<close> is the behaviour of the command \<open>cmd\<close> when it is started as the
  \<open>k\<close>-th interaction with the system, \<open>file_exists w k f\<close> says whether the file \<open>f\<close>
  exists after \<open>k\<close> interactions (a compiler may have written it by then), \<open>trace\<close> is
  the list of interactions so far, oldest first, and \<open>now_ns\<close> the monotonic clock.
\<close>

record world =
  file_exists :: "nat \<Rightarrow> string \<Rightarrow> bool"
  proc :: "nat \<Rightarrow> string list \<Rightarrow> proc_behaviour"
  trace :: "event list"
  now_ns :: int

definition path_exists :: "world \<Rightarrow> path \<Rightarrow> bool" where
  "path_exists w p = file_exists w (length (trace w)) (str_path p)"

text \<open>
  \<^verbatim>\<open>subprocess.run\<close> with a timeout in seconds: a process that has not exited when the
  timeout is over is killed and \<^verbatim>\<open>TimeoutExpired\<close> is raised.
\<close>

definition subprocess_run :: "string list \<Rightarrow> nat \<Rightarrow> world \<Rightarrow> run_result \<times> world" where
  "subprocess_run cmd timeout w =
     (let w' = w\<lparr>trace := trace w @ [Spawn cmd]\<rparr> in
      case proc w (length (trace w)) cmd of
        Exits rc d \<Rightarrow>
          if d \<le> timeout * 1000000000
          then (CompletedProcess rc, w'\<lparr>now_ns := now_ns w + int d\<rparr>)
          else (TimeoutExpired, w'\<lparr>now_ns := now_ns w + int (timeout * 1000000000)\<rparr>)
      | NotFound \<Rightarrow> (FileNotFoundError, w')
      | SpawnFails \<Rightarrow> (OtherOSError, w'))"

text \<open>
  The return code of the command started as the \<open>k\<close>-th interaction, if it exits within
  \<open>t\<close> seconds.
\<close>

definition exits_within :: "world \<Rightarrow> nat \<Rightarrow> string list \<Rightarrow> nat \<Rightarrow> int option" where
  "exits_within w k cmd t =
     (case proc w k cmd of
        Exits rc d \<Rightarrow> if d \<le> t * 1000000000 then Some rc else None
      | NotFound \<Rightarrow> None
      | SpawnFails \<Rightarrow> None)"

definition perf_counter_ns :: "world \<Rightarrow> int \<times> world" where
  "perf_counter_ns w = (now_ns w, w\<lparr>trace := trace w @ [ClockRead]\<rparr>)"

subsection \<open>BenchmarkRunner\<close>

record BenchmarkRunner =
  script_dir :: path
  fcx_compiler :: path
  c_compiler :: string
  results_dir :: path
  bin_dir :: path
  iterations :: int
  verbose :: bool

text \<open>
  \<^verbatim>\<open>__init__\<close>. It stores \<open>iterations\<close> as given. (It also creates the two directories,
  which the model leaves to the environment.)
\<close>

definition BenchmarkRunner_init :: "path \<Rightarrow> int \<Rightarrow> bool \<Rightarrow> BenchmarkRunner" where
  "BenchmarkRunner_init dir iters verb =
     \<lparr>script_dir = dir,
      fcx_compiler = parent dir @ [''bin''] @ [''fcx''],
      c_compiler = ''clang'',
      results_dir = dir @ [''results''],
      bin_dir = dir @ [''bin''],
      iterations = iters,
      verbose = verb\<rparr>"

text \<open>
  \<^verbatim>\<open>compile_fcx\<close> and \<^verbatim>\<open>compile_c\<close>: the handler catches \<^verbatim>\<open>TimeoutExpired\<close> and
  \<^verbatim>\<open>FileNotFoundError\<close>; any other \<^verbatim>\<open>OSError\<close> of \<^verbatim>\<open>subprocess.run\<close> leaves the function.
\<close>

definition fcx_cmd :: "BenchmarkRunner \<Rightarrow> path \<Rightarrow> path \<Rightarrow> string \<Rightarrow> string list" where
  "fcx_cmd self src out opt_flag =
     [str_path (fcx_compiler self), opt_flag, str_path src, ''-o'', str_path out]"

definition c_cmd :: "BenchmarkRunner \<Rightarrow> path \<Rightarrow> path \<Rightarrow> string \<Rightarrow> string list" where
  "c_cmd self src out opt_flags =
     [c_compiler self] @ split opt_flags @ [str_path src, ''-o'', str_path out]"

definition compile_fcx ::
  "BenchmarkRunner \<Rightarrow> path \<Rightarrow> path \<Rightarrow> string \<Rightarrow> world \<Rightarrow> py_error + (bool \<times> world)" where
  "compile_fcx self src out opt_flag w =
     (if \<not> path_exists w src then Inr (False, w)
      else
        let cmd = fcx_cmd self src out opt_flag in
        case subprocess_run cmd 30 w of
          (CompletedProcess rc, w') \<Rightarrow> Inr (rc = 0, w')
        | (TimeoutExpired, w') \<Rightarrow> Inr (False, w')
        | (FileNotFoundError, w') \<Rightarrow> Inr (False, w')
        | (OtherOSError, w') \<Rightarrow> Inl OSError)"

definition compile_c ::
  "BenchmarkRunner \<Rightarrow> path \<Rightarrow> path \<Rightarrow> string \<Rightarrow> world \<Rightarrow> py_error + (bool \<times> world)" where
  "compile_c self src out opt_flags w =
     (if \<not> path_exists w src then Inr (False, w)
      else
        let cmd = c_cmd self src out opt_flags in
        case subprocess_run cmd 30 w of
          (CompletedProcess rc, w') \<Rightarrow> Inr (rc = 0, w')
        | (TimeoutExpired, w') \<Rightarrow> Inr (False, w')
        | (FileNotFoundError, w') \<Rightarrow> Inr (False, w')
        | (OtherOSError, w') \<Rightarrow> Inl OSError)"

text \<open>
  \<^verbatim>\<open>run_binary\<close>: \<open>None\<close> when the binary is missing; otherwise a warm-up execution, then
  an execution between two readings of the clock. Every exception of either execution
  is caught and gives \<open>None\<close>, as does a return code other than 0 and 1.
\<close>

definition run_binary :: "path \<Rightarrow> world \<Rightarrow> real option \<times> world" where
  "run_binary binary w =
     (if \<not> path_exists w binary then (None, w)
      else
        case subprocess_run [str_path binary] 60 w of
          (CompletedProcess warm, w1) \<Rightarrow>
            (let (start, w2) = perf_counter_ns w1 in
             case subprocess_run [str_path binary] 60 w2 of
               (CompletedProcess rc, w3) \<Rightarrow>
                 (let (stop, w4) = perf_counter_ns w3 in
                  if rc \<noteq> 0 \<and> rc \<noteq> 1 then (None, w4)
                  else (Some (real_of_int (stop - start) / 1000000), w4))
             | (raised, w3) \<Rightarrow> (None, w3))
        | (raised, w1) \<Rightarrow> (None, w1))"

text \<open>\<^verbatim>\<open>range(n)\<close>: the integers from 0 up to \<open>n - 1\<close>, none when \<open>n \<le> 0\<close>.\<close>

definition range_py :: "int \<Rightarrow> int list" where
  "range_py n = map int [0..<nat n]"

text \<open>
  The loop \<^verbatim>\<open>for i in range(actual_iterations)\<close> of \<^verbatim>\<open>run_benchmark\<close>, which the
  source writes once for each side: a sample is appended unless \<open>i = 0\<close>.
\<close>

fun timing_loop :: "path \<Rightarrow> int list \<Rightarrow> real list \<Rightarrow> world \<Rightarrow> real list \<times> world" where
  "timing_loop binary [] samples w = (samples, w)"
| "timing_loop binary (i # rest) samples w =
     (case run_binary binary w of
        (None, w') \<Rightarrow> timing_loop binary rest samples w'
      | (Some t, w') \<Rightarrow> timing_loop binary rest (if i > 0 then samples @ [t] else samples) w')"

text \<open>
  The measurement of one side: \<^verbatim>\<open>actual_iterations = self.iterations + 2\<close> rounds, starting
  from an empty list of samples.
\<close>

definition measurement_phase :: "BenchmarkRunner \<Rightarrow> path \<Rightarrow> world \<Rightarrow> real list \<times> world" where
  "measurement_phase self binary w =
     (let actual_iterations = iterations self + 2
      in timing_loop binary (range_py actual_iterations) [] w)"

definition run_benchmark ::
  "BenchmarkRunner \<Rightarrow> string \<Rightarrow> string \<Rightarrow> string \<Rightarrow> world
     \<Rightarrow> py_error + (BenchmarkResult \<times> world)" where
  "run_benchmark self nm cat lvl w =
     (case opt_config_of lvl of
        Inl e \<Rightarrow> Inl e
      | Inr config \<Rightarrow>
          let fcx_src = script_dir self @ [''fcx''] @ [nm @ ''.fcx''];
              c_src = script_dir self @ [''c''] @ [nm @ ''.c''];
              fcx_bin = bin_dir self @ [nm @ ''_fcx_'' @ lower lvl];
              c_bin = bin_dir self @ [nm @ ''_c_'' @ lower lvl]
          in
          (case compile_fcx self fcx_src fcx_bin (cfg_fcx config) w of
             Inl e \<Rightarrow> Inl e
           | Inr (fcx_ok, w1) \<Rightarrow>
              (case compile_c self c_src c_bin (cfg_c config) w1 of
                 Inl e \<Rightarrow> Inl e
               | Inr (c_ok, w2) \<Rightarrow>
                   (case (if fcx_ok then measurement_phase self fcx_bin w2 else ([], w2)) of
                      (fcx_ts, w3) \<Rightarrow>
                   (case (if c_ok then measurement_phase self c_bin w3 else ([], w3)) of
                      (c_ts, w4) \<Rightarrow>
                        Inr (\<lparr>name = nm, category = cat, opt_level = lvl,
                              fcx_times = fcx_ts, c_times = c_ts,
                              fcx_compiled = fcx_ok, c_compiled = c_ok\<rparr>, w4))))))"

text \<open>
  \<^verbatim>\<open>print_header\<close> and \<^verbatim>\<open>print_result\<close> only print; what the model keeps of them is what
  they evaluate and can raise: the lookup of the level, and the derived accessors.
\<close>

definition print_header :: "BenchmarkRunner \<Rightarrow> string \<Rightarrow> string option \<Rightarrow> py_error + unit" where
  "print_header self lvl cat = (case opt_config_of lvl of Inl e \<Rightarrow> Inl e | Inr config \<Rightarrow> Inr ())"

definition print_result :: "BenchmarkResult \<Rightarrow> py_error + unit" where
  "print_result result =
     (case fcx_min result of
        Inl e \<Rightarrow> Inl e
      | Inr fm \<Rightarrow>
          (case c_min result of
             Inl e \<Rightarrow> Inl e
           | Inr cm \<Rightarrow> (case ratio result of Inl e \<Rightarrow> Inl e | Inr r \<Rightarrow> Inr ())))"

fun run_each ::
  "BenchmarkRunner \<Rightarrow> string \<Rightarrow> (string \<times> string) list \<Rightarrow> BenchmarkResult list \<Rightarrow> world
     \<Rightarrow> py_error + (BenchmarkResult list \<times> world)" where
  "run_each self lvl [] results w = Inr (results, w)"
| "run_each self lvl ((nm, cat) # rest) results w =
     (case run_benchmark self nm cat lvl w of
        Inl e \<Rightarrow> Inl e
      | Inr (result, w') \<Rightarrow>
          (case print_result result of
             Inl e \<Rightarrow> Inl e
           | Inr u \<Rightarrow> run_each self lvl rest (results @ [result]) w'))"

text \<open>\<^verbatim>\<open>run_all\<close>: the catalogue filtered by the category, when one is given.\<close>

definition run_all ::
  "BenchmarkRunner \<Rightarrow> string \<Rightarrow> string option \<Rightarrow> world
     \<Rightarrow> py_error + (BenchmarkResult list \<times> world)" where
  "run_all self lvl cat w =
     (case print_header self lvl cat of
        Inl e \<Rightarrow> Inl e
      | Inr u \<Rightarrow>
          run_each self lvl (filter (\<lambda>(n, c). cat = None \<or> Some c = cat) BENCHMARKS) [] w)"

subsection \<open>The category averages of print_summary\<close>

text \<open>
  The dictionary \<open>categories\<close> keeps its keys in the order of their first insertion; a
  result is appended to the list under its category.
\<close>

fun add_result ::
  "BenchmarkResult \<Rightarrow> (string \<times> BenchmarkResult list) list
     \<Rightarrow> (string \<times> BenchmarkResult list) list" where
  "add_result r [] = [(category r, [r])]"
| "add_result r ((k, rs) # kvs) =
     (if k = category r then (k, rs @ [r]) # kvs else (k, rs) # add_result r kvs)"

definition group_by_category ::
  "BenchmarkResult list \<Rightarrow> (string \<times> BenchmarkResult list) list" where
  "group_by_category results = fold add_result results []"

text \<open>\<^verbatim>\<open>[f(r) for r in cat_results if f(r) > 0]\<close> for an accessor \<open>f\<close> that may raise.\<close>

fun positive_values ::
  "(BenchmarkResult \<Rightarrow> py_error + real) \<Rightarrow> BenchmarkResult list \<Rightarrow> py_error + real list" where
  "positive_values f [] = Inr []"
| "positive_values f (r # rs) =
     (case f r of
        Inl e \<Rightarrow> Inl e
      | Inr v \<Rightarrow>
          (case positive_values f rs of
             Inl e \<Rightarrow> Inl e
           | Inr vs \<Rightarrow> Inr (if v > 0 then v # vs else vs)))"

text \<open>One line of the summary: the category, both averages and the ratio.\<close>

definition category_line ::
  "string \<Rightarrow> BenchmarkResult list \<Rightarrow> py_error + (string \<times> real \<times> real \<times> real)" where
  "category_line cat cat_results =
     (case positive_values fcx_min cat_results of
        Inl e \<Rightarrow> Inl e
      | Inr fcx_ts \<Rightarrow>
     (case positive_values c_min cat_results of
        Inl e \<Rightarrow> Inl e
      | Inr c_ts \<Rightarrow>
     (case (if fcx_ts \<noteq> [] then py_mean fcx_ts else Inr 0) of
        Inl e \<Rightarrow> Inl e
      | Inr f_avg \<Rightarrow>
     (case (if c_ts \<noteq> [] then py_mean c_ts else Inr 0) of
        Inl e \<Rightarrow> Inl e
      | Inr r_avg \<Rightarrow>
     (case (if r_avg > 0 then py_div f_avg r_avg else Inr 0) of
        Inl e \<Rightarrow> Inl e
      | Inr q \<Rightarrow> Inr (cat, f_avg, r_avg, q))))))"

fun category_lines ::
  "(string \<times> BenchmarkResult list) list \<Rightarrow> py_error + (string \<times> real \<times> real \<times> real) list" where
  "category_lines [] = Inr []"
| "category_lines ((cat, cat_results) # rest) =
     (case category_line cat cat_results of
        Inl e \<Rightarrow> Inl e
      | Inr row \<Rightarrow>
          (case category_lines rest of Inl e \<Rightarrow> Inl e | Inr rows \<Rightarrow> Inr (row # rows)))"

text \<open>
  \<^verbatim>\<open>print_summary\<close>, up to the category table: the groups in the order of their keys.
  (Writing the CSV file is not part of the model.)
\<close>

definition print_summary ::
  "BenchmarkResult list \<Rightarrow> py_error + (string \<times> real \<times> real \<times> real) list" where
  "print_summary results = category_lines (sort_key fst (group_by_category results))"

subsection \<open>Notions used to state the properties\<close>

text \<open>The minimum and the mean of a sample sequence, with 0 for the empty sequence.\<close>

definition min_or_zero :: "real list \<Rightarrow> real" where
  "min_or_zero xs = (if xs = [] then 0 else Min (set xs))"

definition mean_or_zero :: "real list \<Rightarrow> real" where
  "mean_or_zero xs = (if xs = [] then 0 else sum_list xs / real (length xs))"

text \<open>What \<^verbatim>\<open>run_binary\<close> returns in each of \<open>n\<close> consecutive rounds on one binary.\<close>

fun round_results :: "path \<Rightarrow> nat \<Rightarrow> world \<Rightarrow> real option list" where
  "round_results binary 0 w = []"
| "round_results binary (Suc n) w =
     (case run_binary binary w of (t, w') \<Rightarrow> t # round_results binary n w')"

text \<open>
  Every execution of a binary succeeds: the file is there whenever it is looked for, and
  whenever it is started it exits with code 0 or 1 within the 60 seconds.
\<close>

definition every_run_succeeds :: "world \<Rightarrow> path \<Rightarrow> bool" where
  "every_run_succeeds w binary =
     (\<forall>k. file_exists w k (str_path binary) \<and>
          (exits_within w k [str_path binary] 60 = Some 0 \<or>
           exits_within w k [str_path binary] 60 = Some 1))"

definition is_spawn :: "event \<Rightarrow> bool" where
  "is_spawn ev = (case ev of Spawn cmd \<Rightarrow> True | ClockRead \<Rightarrow> False)"

subsection \<open>Concrete environments for the examples\<close>

text \<open>Every file exists and every process exits with code 0 after one millisecond.\<close>

definition world_ok :: world where
  "world_ok = \<lparr>file_exists = (\<lambda>k f. True), proc = (\<lambda>k cmd. Exits 0 1000000),
               trace = [], now_ns = 0\<rparr>"

definition runner_one :: BenchmarkRunner where
  "runner_one = BenchmarkRunner_init [''home'', ''bench''] 1 False"

definition loop_sum_bin :: path where
  "loop_sum_bin = [''home'', ''bench'', ''bin'', ''07_loop_sum_fcx_o2'']"

section \<open>Properties of the derived accessors\<close>

lemma py_min_fold_scale:
  fixes k :: real
  assumes "0 < k"
  shows "fold (\<lambda>item best. if item < best then item else best) (map (\<lambda>t. k * t) xs) (k * x)
         = k * fold (\<lambda>item best. if item < best then item else best) xs x"
  using assms by (induction xs arbitrary: x) simp_all

lemma py_min_is_Min: "py_min (x # xs) = Inr (Min (set (x # xs)))"
proof -
  have "(\<lambda>item best. if item < best then item else best) = (min :: real \<Rightarrow> real \<Rightarrow> real)"
    by (auto simp: fun_eq_iff min_def)
  then show ?thesis
    by (simp only: py_min.simps Min.set_eq_fold)
qed

lemma py_min_scale:
  fixes k :: real
  assumes "0 < k" and "py_min xs = Inr m"
  shows "py_min (map (\<lambda>t. k * t) xs) = Inr (k * m)"
proof (cases xs)
  case Nil
  with assms(2) show ?thesis by simp
next
  case (Cons x ys)
  with assms(2) have "m = fold (\<lambda>item best. if item < best then item else best) ys x"
    by simp
  with Cons assms(1) show ?thesis
    by (simp add: py_min_fold_scale)
qed

lemma fcx_min_eq: "fcx_min r = Inr (min_or_zero (fcx_times r))"
proof (cases "fcx_times r")
  case Nil
  then show ?thesis by (simp add: fcx_min_def min_or_zero_def)
next
  case (Cons x xs)
  then show ?thesis
    using py_min_is_Min [of x xs] by (simp add: fcx_min_def min_or_zero_def)
qed

lemma c_min_eq: "c_min r = Inr (min_or_zero (c_times r))"
proof (cases "c_times r")
  case Nil
  then show ?thesis by (simp add: c_min_def min_or_zero_def)
next
  case (Cons x xs)
  then show ?thesis
    using py_min_is_Min [of x xs] by (simp add: c_min_def min_or_zero_def)
qed

lemma fcx_avg_eq: "fcx_avg r = Inr (mean_or_zero (fcx_times r))"
  by (simp add: fcx_avg_def py_mean_def mean_or_zero_def)

lemma c_avg_eq: "c_avg r = Inr (mean_or_zero (c_times r))"
  by (simp add: c_avg_def py_mean_def mean_or_zero_def)

lemma ratio_eq:
  "ratio r =
     Inr (if 0 < min_or_zero (c_times r) \<and> 0 < min_or_zero (fcx_times r)
          then min_or_zero (fcx_times r) / min_or_zero (c_times r) else 0)"
  by (simp add: ratio_def fcx_min_eq c_min_eq py_div_def)

text \<open>
  C10. The four derived accessors never raise, whatever the sample sequences are: each
  returns the minimum (the mean) of its sample sequence, and the sentinel 0 when the
  sequence is empty.
\<close>

theorem accessors_total:
  "fcx_min r = Inr (min_or_zero (fcx_times r)) \<and> c_min r = Inr (min_or_zero (c_times r)) \<and>
   fcx_avg r = Inr (mean_or_zero (fcx_times r)) \<and> c_avg r = Inr (mean_or_zero (c_times r)) \<and>
   fcx_min (r\<lparr>fcx_times := []\<rparr>) = Inr 0 \<and> c_min (r\<lparr>c_times := []\<rparr>) = Inr 0 \<and>
   fcx_avg (r\<lparr>fcx_times := []\<rparr>) = Inr 0 \<and> c_avg (r\<lparr>c_times := []\<rparr>) = Inr 0"
  by (simp add: fcx_min_eq c_min_eq fcx_avg_eq c_avg_eq min_or_zero_def mean_or_zero_def)

text \<open>The accessors on a result whose candidate side has no sample at all.\<close>

theorem accessors_total_witness:
  "fcx_min \<lparr>name = ''07_loop_sum'', category = ''loop'', opt_level = ''O2'', fcx_times = [],
            c_times = [5, 49 / 10], fcx_compiled = False, c_compiled = True\<rparr> = Inr 0 \<and>
   c_min \<lparr>name = ''07_loop_sum'', category = ''loop'', opt_level = ''O2'', fcx_times = [],
          c_times = [5, 49 / 10], fcx_compiled = False, c_compiled = True\<rparr> = Inr (49 / 10)"
  using accessors_total [of "\<lparr>name = ''07_loop_sum'', category = ''loop'', opt_level = ''O2'',
      fcx_times = [], c_times = [5, 49 / 10], fcx_compiled = False, c_compiled = True\<rparr>"]
  by (simp add: min_or_zero_def)

text \<open>
  C2. The ratio is the candidate minimum divided by the reference minimum when both are
  strictly positive and 0 otherwise; it is a value, never a ZeroDivisionError; and with
  an empty reference sample sequence it is 0 whatever the candidate samples are.
\<close>

theorem ratio_sentinel:
  "ratio r =
     Inr (if 0 < min_or_zero (c_times r) \<and> 0 < min_or_zero (fcx_times r)
          then min_or_zero (fcx_times r) / min_or_zero (c_times r) else 0) \<and>
   ratio r \<noteq> Inl ZeroDivisionError \<and>
   ratio (r\<lparr>c_times := []\<rparr>) = Inr 0"
  by (simp add: ratio_eq min_or_zero_def)

text \<open>The scenario of the specification: minimums 4.8 and 4.9, ratio 48/49.\<close>

theorem ratio_sentinel_witness:
  "ratio \<lparr>name = ''loop_sum'', category = ''loop'', opt_level = ''O2'',
          fcx_times = [5, 48 / 10, 51 / 10, 49 / 10, 5],
          c_times = [5, 49 / 10, 5, 5, 51 / 10],
          fcx_compiled = True, c_compiled = True\<rparr> = Inr (48 / 49) \<and>
   ratio \<lparr>name = ''loop_sum'', category = ''loop'', opt_level = ''O2'',
          fcx_times = [5, 48 / 10, 51 / 10, 49 / 10, 5],
          c_times = [],
          fcx_compiled = True, c_compiled = True\<rparr> = Inr 0"
  using ratio_sentinel [of "\<lparr>name = ''loop_sum'', category = ''loop'', opt_level = ''O2'',
          fcx_times = [5, 48 / 10, 51 / 10, 49 / 10, 5],
          c_times = [5, 49 / 10, 5, 5, 51 / 10],
          fcx_compiled = True, c_compiled = True\<rparr>"]
  by (simp add: min_or_zero_def)

text \<open>
  Scaling the candidate samples by a positive factor, in exact arithmetic: the minimum
  and the ratio are scaled by the same factor. (The program computes in binary64, where
  the two sides of this equation are rounded separately.)
\<close>

lemma min_or_zero_scale:
  fixes k :: real
  assumes "0 < k"
  shows "min_or_zero (map (\<lambda>t. k * t) xs) = k * min_or_zero xs"
proof (cases xs)
  case Nil
  then show ?thesis by (simp add: min_or_zero_def)
next
  case (Cons x ys)
  have "py_min (map (\<lambda>t. k * t) xs) = Inr (k * Min (set xs))"
    using py_min_scale [OF assms, of xs "Min (set xs)"] py_min_is_Min [of x ys] Cons by simp
  moreover have "py_min (map (\<lambda>t. k * t) xs) = Inr (Min (set (map (\<lambda>t. k * t) xs)))"
    using py_min_is_Min [of "k * x" "map (\<lambda>t. k * t) ys"] Cons by simp
  ultimately show ?thesis
    using Cons by (simp add: min_or_zero_def)
qed

lemma ratio_scale_exact:
  fixes k :: real
  assumes "0 < k" and "ratio r = Inr q"
  shows "ratio (r\<lparr>fcx_times := map (\<lambda>t. k * t) (fcx_times r)\<rparr>) = Inr (k * q)"
  using assms by (auto simp: ratio_eq min_or_zero_scale zero_less_mult_iff)

end
